theory Spec2Isabelle
  imports Complex_Main
begin

section \<open>Python values shared by the three modules\<close>

text \<open>
  Exceptions are values. Each constructor is a Python exception class and carries the
  message (for \<open>HTTPException\<close> the status code and the detail). Probabilities are
  Python floats; they are modelled as real numbers, so \<open>0.5\<close>, \<open>0.8\<close> and
  \<open>0.2\<close> are the exact thresholds. A \<open>str\<close> is a \<open>string\<close>: one
  \<open>char\<close> per code point, code points below 256.
\<close>

datatype exn =
    ValueError string
  | KeyError string
  | TypeError string
  | AttributeError string
  | IndexError string
  | FileNotFoundError string
  | NotFittedError string
  | ParserError string
  | HTTPException nat string

type_synonym 'a result = "exn + 'a"

definition py_index :: "'a list \<Rightarrow> nat \<Rightarrow> 'a result" where
  "py_index xs i = (if i < length xs then Inr (xs ! i) else Inl (IndexError ''index out of range''))"

section \<open>The library the detector drives (pandas, scikit-learn)\<close>

text \<open>
  The hyperparameters \<open>train\<close> hands to \<open>TfidfVectorizer\<close>; the three flags
  \<open>sublinear_tf\<close>, \<open>use_idf\<close> and \<open>smooth_idf\<close> are the constant
  \<open>True\<close> in the source.
\<close>

record tfidf_params =
  p_max_features :: int
  p_ngram_range :: "int \<times> int"
  p_min_df :: int
  p_max_df :: real

text \<open>A cell of a CSV column as pandas read it.\<close>

datatype cell = CellInt int | CellStr string | CellNaN

type_synonym dataframe = "(string \<times> cell list) list"

text \<open>
  scikit-learn and pandas are not code of the repository: every call the source makes
  into them is a field of this record, and the functions of the detector take the record
  as their first argument. \<open>'v\<close> is the fitted state of a vectorizer (vocabulary and
  IDF weights), \<open>'c\<close> the fitted state of a classifier, \<open>'x\<close> a feature matrix.
  \<open>train_test_split\<close> takes the matrix, the labels, \<open>test_size\<close>,
  \<open>random_state\<close> (\<open>None\<close> when the caller passes none) and the state of
  NumPy's global random generator, which scikit-learn draws from when
  \<open>random_state\<close> is \<open>None\<close>; \<open>np_random\<close> is that state when the
  library is called, so it is where two runs of the same program differ
  (\<open>stratify\<close> is always the labels). \<open>eval_report\<close> stands for
  \<open>classification_report\<close> and \<open>confusion_matrix\<close> with the indexing
  \<open>cm[i,j]\<close> of the four printed cells: it returns the exception they raise, if any.
\<close>

record ('v, 'c, 'x) sklearn =
  astype_str :: "cell list \<Rightarrow> string list"
  astype_int :: "cell list \<Rightarrow> int list result"
  fit_transform :: "tfidf_params \<Rightarrow> string list \<Rightarrow> ('v \<times> 'x) result"
  transform :: "'v \<Rightarrow> string list \<Rightarrow> 'x result"
  np_random :: nat
  train_test_split ::
    "'x \<Rightarrow> int list \<Rightarrow> real \<Rightarrow> nat option \<Rightarrow> nat
       \<Rightarrow> ('x \<times> 'x \<times> int list \<times> int list) result"
  nb_fit :: "real \<Rightarrow> 'x \<Rightarrow> int list \<Rightarrow> 'c result"
  nb_predict :: "'c \<Rightarrow> 'x \<Rightarrow> int list result"
  predict_proba :: "'c \<Rightarrow> 'x \<Rightarrow> real list list result"
  classes_of :: "'c \<Rightarrow> int list"
  accuracy_score :: "int list \<Rightarrow> int list \<Rightarrow> real"
  eval_report :: "int list \<Rightarrow> int list \<Rightarrow> exn option"

section \<open>detector.py: the objects a detector holds and the files it writes\<close>

text \<open>
  Python is dynamically typed: the attributes \<open>vectorizer\<close> and \<open>classifier\<close>
  hold whatever was assigned or unpickled. An estimator is unfitted (\<open>None\<close> as its
  state) between its construction and its \<open>fit\<close>. \<open>ConfigDict\<close> is the dict
  \<open>save_model\<close> dumps, with its keys \<open>max_features\<close>, \<open>ngram_range\<close> and
  \<open>alpha\<close>.
\<close>

datatype ('v, 'c) pyobj =
    PyNone
  | TfidfVectorizer tfidf_params "'v option"
  | MultinomialNB real "'c option"
  | ConfigDict int "int \<times> int" real

record ('v, 'c) detector =
  max_features :: int
  ngram_range :: "int \<times> int"
  alpha :: real
  min_df :: int
  max_df :: real
  vectorizer :: "('v, 'c) pyobj"
  classifier :: "('v, 'c) pyobj"
  is_trained :: bool

text \<open>\<open>AITextDetector.__init__\<close>\<close>

definition init :: "('v, 'c) detector" where
  "init = \<lparr> max_features = 15000, ngram_range = (1, 3), alpha = 0.01, min_df = 2,
            max_df = 0.9, vectorizer = PyNone, classifier = PyNone, is_trained = False \<rparr>"

text \<open>
  The file system: a path holds a CSV file or an object dumped by joblib. joblib's
  \<open>dump\<close> and \<open>load\<close> are not in the repository; they are modelled as storing
  and returning the object. Directories, permissions and write failures are not modelled.
\<close>

datatype ('v, 'c) fsfile = CsvFile dataframe | JoblibFile "('v, 'c) pyobj"

type_synonym ('v, 'c) fs = "string \<rightharpoonup> ('v, 'c) fsfile"

text \<open>\<open>os.path.join\<close> of two components (POSIX).\<close>

definition path_join :: "string \<Rightarrow> string \<Rightarrow> string" where
  "path_join a b =
     (if b \<noteq> [] \<and> hd b = CHR ''/'' then b
      else if a = [] \<or> last a = CHR ''/'' then a @ b
      else a @ ''/'' @ b)"

definition path_exists :: "('v, 'c) fs \<Rightarrow> string \<Rightarrow> bool" where
  "path_exists fs p = (fs p \<noteq> None)"

definition artifact_files :: "string list" where
  "artifact_files = [''vectorizer.joblib'', ''classifier.joblib'', ''config.joblib'']"

text \<open>\<open>AITextDetector.model_exists\<close>\<close>

definition model_exists :: "('v, 'c) fs \<Rightarrow> string \<Rightarrow> bool" where
  "model_exists fs model_dir = list_all (\<lambda>f. path_exists fs (path_join model_dir f)) artifact_files"

definition joblib_load :: "('v, 'c) fs \<Rightarrow> string \<Rightarrow> ('v, 'c) pyobj result" where
  "joblib_load fs p =
     (case fs p of
        None \<Rightarrow> Inl (FileNotFoundError p)
      | Some (CsvFile _) \<Rightarrow> Inl (ValueError ''not a joblib file'')
      | Some (JoblibFile obj) \<Rightarrow> Inr obj)"

definition joblib_dump :: "('v, 'c) pyobj \<Rightarrow> string \<Rightarrow> ('v, 'c) fs \<Rightarrow> ('v, 'c) fs" where
  "joblib_dump obj p fs = fs(p \<mapsto> JoblibFile obj)"

text \<open>
  The method calls \<open>predict\<close> makes on its two attributes. On \<open>None\<close>, and on an
  object of another class, the attribute lookup raises \<open>AttributeError\<close>; on an
  unfitted estimator scikit-learn raises \<open>NotFittedError\<close>.
\<close>

definition vectorizer_transform ::
  "('v, 'c, 'x) sklearn \<Rightarrow> ('v, 'c) pyobj \<Rightarrow> string list \<Rightarrow> 'x result" where
  "vectorizer_transform lib obj texts =
     (case obj of
        TfidfVectorizer ps (Some v) \<Rightarrow> transform lib v texts
      | TfidfVectorizer ps None \<Rightarrow> Inl (NotFittedError ''The TF-IDF vectorizer is not fitted'')
      | PyNone \<Rightarrow> Inl (AttributeError ''NoneType object has no attribute transform'')
      | _ \<Rightarrow> Inl (AttributeError ''object has no attribute transform''))"

definition classifier_predict_proba ::
  "('v, 'c, 'x) sklearn \<Rightarrow> ('v, 'c) pyobj \<Rightarrow> 'x \<Rightarrow> real list list result" where
  "classifier_predict_proba lib obj X =
     (case obj of
        MultinomialNB a (Some c) \<Rightarrow> predict_proba lib c X
      | MultinomialNB a None \<Rightarrow> Inl (NotFittedError ''This MultinomialNB instance is not fitted yet'')
      | PyNone \<Rightarrow> Inl (AttributeError ''NoneType object has no attribute predict_proba'')
      | _ \<Rightarrow> Inl (AttributeError ''object has no attribute predict_proba''))"

definition classifier_classes ::
  "('v, 'c, 'x) sklearn \<Rightarrow> ('v, 'c) pyobj \<Rightarrow> int list result" where
  "classifier_classes lib obj =
     (case obj of
        MultinomialNB a (Some c) \<Rightarrow> Inr (classes_of lib c)
      | MultinomialNB a None \<Rightarrow> Inl (AttributeError ''MultinomialNB object has no attribute classes_'')
      | PyNone \<Rightarrow> Inl (AttributeError ''NoneType object has no attribute classes_'')
      | _ \<Rightarrow> Inl (AttributeError ''object has no attribute classes_''))"

text \<open>
  \<open>{cls: idx for idx, cls in enumerate(classes_)}\<close>: a later entry of the same class
  replaces an earlier one. A missing key raises \<open>KeyError\<close>.
\<close>

definition class_to_idx :: "int list \<Rightarrow> int \<rightharpoonup> nat" where
  "class_to_idx cs = map_of (rev (zip cs [0..<length cs]))"

definition dict_get :: "(int \<rightharpoonup> nat) \<Rightarrow> int \<Rightarrow> nat result" where
  "dict_get m k = (case m k of None \<Rightarrow> Inl (KeyError (if k = 0 then ''0'' else ''1'')) | Some i \<Rightarrow> Inr i)"

text \<open>
  \<open>AITextDetector.predict\<close>. The method returns the triple
  \<open>(label, ai_prob, human_prob)\<close> or raises; the second component of the result is the
  detector after the call.
\<close>

definition predict ::
  "('v, 'c, 'x) sklearn \<Rightarrow> ('v, 'c) detector \<Rightarrow> string
     \<Rightarrow> (string \<times> real \<times> real) result \<times> ('v, 'c) detector" where
  "predict lib d text =
     (if \<not> is_trained d then (Inl (ValueError ''Model not loaded!''), d)
      else case vectorizer_transform lib (vectorizer d) [text] of
        Inl e \<Rightarrow> (Inl e, d)
      | Inr X \<Rightarrow>
      (case classifier_predict_proba lib (classifier d) X of
        Inl e \<Rightarrow> (Inl e, d)
      | Inr rows \<Rightarrow>
      (case py_index rows 0 of
        Inl e \<Rightarrow> (Inl e, d)
      | Inr probs \<Rightarrow>
      (case classifier_classes lib (classifier d) of
        Inl e \<Rightarrow> (Inl e, d)
      | Inr cs \<Rightarrow>
      (case dict_get (class_to_idx cs) 0 of
        Inl e \<Rightarrow> (Inl e, d)
      | Inr i0 \<Rightarrow>
      (case py_index probs i0 of
        Inl e \<Rightarrow> (Inl e, d)
      | Inr human_prob \<Rightarrow>
      (case dict_get (class_to_idx cs) 1 of
        Inl e \<Rightarrow> (Inl e, d)
      | Inr i1 \<Rightarrow>
      (case py_index probs i1 of
        Inl e \<Rightarrow> (Inl e, d)
      | Inr ai_prob \<Rightarrow>
          (Inr (if ai_prob > 0.5 then ''AI'' else ''Human'', ai_prob, human_prob), d)))))))))"

text \<open>
  \<open>pd.read_csv\<close> and the column lookups \<open>data['text']\<close>,
  \<open>data['generated']\<close> (\<open>KeyError\<close> on a missing column).
\<close>

definition read_csv :: "('v, 'c) fs \<Rightarrow> string \<Rightarrow> dataframe result" where
  "read_csv fs filepath =
     (case fs filepath of
        None \<Rightarrow> Inl (FileNotFoundError filepath)
      | Some (CsvFile data) \<Rightarrow> Inr data
      | Some (JoblibFile _) \<Rightarrow> Inl (ParserError ''Error tokenizing data''))"

definition column :: "dataframe \<Rightarrow> string \<Rightarrow> cell list result" where
  "column data name = (case map_of data name of None \<Rightarrow> Inl (KeyError name) | Some col \<Rightarrow> Inr col)"

definition vectorizer_params :: "('v, 'c) detector \<Rightarrow> tfidf_params" where
  "vectorizer_params d =
     \<lparr> p_max_features = max_features d, p_ngram_range = ngram_range d,
       p_min_df = min_df d, p_max_df = max_df d \<rparr>"

text \<open>
  \<open>AITextDetector.train\<close>. The attributes are assigned in the order of the source:
  the vectorizer is stored unfitted and fitted in place by \<open>fit_transform\<close>, the
  classifier is stored unfitted and fitted in place by \<open>fit\<close>, and \<open>is_trained\<close>
  is set last. An exception leaves the detector as the assignments before it made it.
  The \<open>print\<close> calls write to the terminal only and are left out.
\<close>

definition train ::
  "('v, 'c, 'x) sklearn \<Rightarrow> ('v, 'c) fs \<Rightarrow> ('v, 'c) detector \<Rightarrow> string \<Rightarrow> real
     \<Rightarrow> real result \<times> ('v, 'c) detector" where
  "train lib fs d filepath test_size =
     (case read_csv fs filepath of
        Inl e \<Rightarrow> (Inl e, d)
      | Inr data \<Rightarrow>
      (case column data ''text'' of
        Inl e \<Rightarrow> (Inl e, d)
      | Inr text_col \<Rightarrow>
      (case column data ''generated'' of
        Inl e \<Rightarrow> (Inl e, d)
      | Inr generated_col \<Rightarrow>
      (case astype_int lib generated_col of
        Inl e \<Rightarrow> (Inl e, d)
      | Inr y \<Rightarrow>
      (let X_text = astype_str lib text_col;
           ps = vectorizer_params d;
           d1 = d\<lparr>vectorizer := TfidfVectorizer ps None\<rparr>
       in case fit_transform lib ps X_text of
        Inl e \<Rightarrow> (Inl e, d1)
      | Inr (v, X) \<Rightarrow>
      (let d2 = d1\<lparr>vectorizer := TfidfVectorizer ps (Some v)\<rparr>
       in case train_test_split lib X y test_size (Some 42) (np_random lib) of
        Inl e \<Rightarrow> (Inl e, d2)
      | Inr (X_train, X_test, y_train, y_test) \<Rightarrow>
      (let d3 = d2\<lparr>classifier := MultinomialNB (alpha d) None\<rparr>
       in case nb_fit lib (alpha d) X_train y_train of
        Inl e \<Rightarrow> (Inl e, d3)
      | Inr c \<Rightarrow>
      (let d4 = d3\<lparr>classifier := MultinomialNB (alpha d) (Some c)\<rparr>
       in case nb_predict lib c X_test of
        Inl e \<Rightarrow> (Inl e, d4)
      | Inr y_pred \<Rightarrow>
      (let accuracy = accuracy_score lib y_test y_pred
       in case eval_report lib y_test y_pred of
        Some e \<Rightarrow> (Inl e, d4)
      | None \<Rightarrow> (Inr accuracy, d4\<lparr>is_trained := True\<rparr>))))))))))"

text \<open>\<open>AITextDetector.save_model\<close>: three dumps, in the order of the source.\<close>

definition save_model :: "('v, 'c) detector \<Rightarrow> string \<Rightarrow> ('v, 'c) fs \<Rightarrow> ('v, 'c) fs" where
  "save_model d model_dir fs =
     (let fs1 = joblib_dump (vectorizer d) (path_join model_dir ''vectorizer.joblib'') fs;
          fs2 = joblib_dump (classifier d) (path_join model_dir ''classifier.joblib'') fs1
      in joblib_dump (ConfigDict (max_features d) (ngram_range d) (alpha d))
           (path_join model_dir ''config.joblib'') fs2)"

text \<open>
  \<open>AITextDetector.load_model\<close>: each attribute is assigned as soon as its file is
  loaded. Subscripting a loaded config that is not a dict raises \<open>TypeError\<close>.
\<close>

definition load_model ::
  "('v, 'c) detector \<Rightarrow> string \<Rightarrow> ('v, 'c) fs \<Rightarrow> unit result \<times> ('v, 'c) detector" where
  "load_model d model_dir fs =
     (case joblib_load fs (path_join model_dir ''vectorizer.joblib'') of
        Inl e \<Rightarrow> (Inl e, d)
      | Inr vec \<Rightarrow>
      (let d1 = d\<lparr>vectorizer := vec\<rparr>
       in case joblib_load fs (path_join model_dir ''classifier.joblib'') of
        Inl e \<Rightarrow> (Inl e, d1)
      | Inr clf \<Rightarrow>
      (let d2 = d1\<lparr>classifier := clf\<rparr>
       in case joblib_load fs (path_join model_dir ''config.joblib'') of
        Inl e \<Rightarrow> (Inl e, d2)
      | Inr config \<Rightarrow>
      (case config of
         ConfigDict mf ng a \<Rightarrow>
           (Inr (), d2\<lparr>max_features := mf, ngram_range := ng, alpha := a, is_trained := True\<rparr>)
       | _ \<Rightarrow> (Inl (TypeError ''object is not subscriptable''), d2)))))"

text \<open>
  A run of the detector: the operations of its interface applied one after the other to
  the detector and the file system. An operation that raises leaves the state it reached,
  and a caller that catches the exception goes on from that state.
\<close>

datatype op = Train string real | Save string | Load string | Predict string

fun step ::
  "('v, 'c, 'x) sklearn \<Rightarrow> op \<Rightarrow> ('v, 'c) detector \<times> ('v, 'c) fs
     \<Rightarrow> ('v, 'c) detector \<times> ('v, 'c) fs" where
  "step lib (Train filepath test_size) (d, fs) = (snd (train lib fs d filepath test_size), fs)"
| "step lib (Save model_dir) (d, fs) = (d, save_model d model_dir fs)"
| "step lib (Load model_dir) (d, fs) = (snd (load_model d model_dir fs), fs)"
| "step lib (Predict t) (d, fs) = (snd (predict lib d t), fs)"

fun run ::
  "('v, 'c, 'x) sklearn \<Rightarrow> op list \<Rightarrow> ('v, 'c) detector \<times> ('v, 'c) fs
     \<Rightarrow> ('v, 'c) detector \<times> ('v, 'c) fs" where
  "run lib [] s = s"
| "run lib (x # xs) s = run lib xs (step lib x s)"

text \<open>
  The runs in which \<open>save_model\<close> is only called on a trained detector, as
  \<open>interactive\<close> calls it (right after \<open>train\<close>).
\<close>

fun saves_trained ::
  "('v, 'c, 'x) sklearn \<Rightarrow> op list \<Rightarrow> ('v, 'c) detector \<times> ('v, 'c) fs \<Rightarrow> bool" where
  "saves_trained lib [] s = True"
| "saves_trained lib (x # xs) s =
     ((case x of Save _ \<Rightarrow> is_trained (fst s) | _ \<Rightarrow> True) \<and> saves_trained lib xs (step lib x s))"

definition no_null_artifact :: "('v, 'c) fs \<Rightarrow> bool" where
  "no_null_artifact fs = (\<forall>p. fs p \<noteq> Some (JoblibFile PyNone))"

section \<open>Strings\<close>

text \<open>
  \<open>str.isspace\<close> on the code points below 256, \<open>str.strip()\<close> and
  \<open>str.split()\<close> with no argument.
\<close>

definition isspace :: "char \<Rightarrow> bool" where
  "isspace c = (of_char c \<in> {9, 10, 11, 12, 13, 28, 29, 30, 31, 32, 133, 160 :: nat})"

definition py_strip :: "string \<Rightarrow> string" where
  "py_strip s = rev (dropWhile isspace (rev (dropWhile isspace s)))"

fun split_from :: "string \<Rightarrow> string \<Rightarrow> string list" where
  "split_from cur [] = (if cur = [] then [] else [rev cur])"
| "split_from cur (c # cs) =
     (if isspace c then (if cur = [] then split_from [] cs else rev cur # split_from [] cs)
      else split_from (c # cur) cs)"

definition py_split :: "string \<Rightarrow> string list" where
  "py_split s = split_from [] s"

fun contains :: "string \<Rightarrow> string \<Rightarrow> bool" where
  "contains [] sub = (sub = [])"
| "contains (c # cs) sub = (take (length sub) (c # cs) = sub \<or> contains cs sub)"

text \<open>\<open>round(x, n)\<close>: to the nearest multiple of \<open>10^-n\<close>, a tie to the even one.\<close>

definition py_round :: "real \<Rightarrow> nat \<Rightarrow> real" where
  "py_round x n =
     (let s = x * 10 ^ n; f = \<lfloor>s\<rfloor>; frac = s - of_int f
      in (if frac < 1/2 then of_int f
          else if frac > 1/2 then of_int (f + 1)
          else if even f then of_int f else of_int (f + 1)) / 10 ^ n)"

section \<open>The two HTTP surfaces\<close>

text \<open>A decoded JSON body; an object keeps its members in order (the last of a repeated key wins).\<close>

datatype json =
    JNull
  | JBool bool
  | JNum real
  | JStr string
  | JArr "json list"
  | JObj "(string \<times> json) list"

record predict_response =
  r_label :: string
  r_ai_probability :: real
  r_human_probability :: real
  r_confidence :: string
  r_certainty :: real
  r_text_length :: nat
  r_word_count :: nat

text \<open>
  A response is a status code and a body: Flask's \<open>{'error': message}\<close>, FastAPI's
  \<open>{'detail': message}\<close>, the list of validation errors FastAPI answers 422 with, or
  the prediction.
\<close>

datatype body =
    ErrorBody string
  | DetailBody string
  | ValidationErrors
  | PredictBody predict_response

type_synonym response = "nat \<times> body"

definition dquote :: char where
  "dquote = CHR 0x22"

text \<open>
  What the Flask handler does with \<open>data\<close>: \<open>not data\<close>, \<open>'text' not in data\<close>,
  \<open>data['text']\<close> and \<open>.strip()\<close>, on every JSON value \<open>get_json\<close> can return.
\<close>

fun py_not :: "json \<Rightarrow> bool" where
  "py_not JNull = True"
| "py_not (JBool b) = (\<not> b)"
| "py_not (JNum n) = (n = 0)"
| "py_not (JStr s) = (s = [])"
| "py_not (JArr xs) = (xs = [])"
| "py_not (JObj kvs) = (kvs = [])"

fun py_in :: "string \<Rightarrow> json \<Rightarrow> bool result" where
  "py_in k (JObj kvs) = Inr (k \<in> set (map fst kvs))"
| "py_in k (JArr xs) = Inr (JStr k \<in> set xs)"
| "py_in k (JStr s) = Inr (contains s k)"
| "py_in k _ = Inl (TypeError ''argument is not iterable'')"

fun py_getitem :: "json \<Rightarrow> string \<Rightarrow> json result" where
  "py_getitem (JObj kvs) k = (case map_of (rev kvs) k of None \<Rightarrow> Inl (KeyError k) | Some v \<Rightarrow> Inr v)"
| "py_getitem (JArr xs) k = Inl (TypeError ''list indices must be integers or slices, not str'')"
| "py_getitem (JStr s) k = Inl (TypeError ''string indices must be integers'')"
| "py_getitem _ k = Inl (TypeError ''object is not subscriptable'')"

fun strip_method :: "json \<Rightarrow> string result" where
  "strip_method (JStr s) = Inr (py_strip s)"
| "strip_method _ = Inl (AttributeError ''object has no attribute strip'')"

text \<open>The confidence band, as each surface computes it from \<open>certainty\<close>.\<close>

definition flask_confidence :: "real \<Rightarrow> string" where
  "flask_confidence c =
     (if c > 0.8 then ''very_high''
      else if c > 0.5 then ''high''
      else if c > 0.2 then ''medium''
      else ''low'')"

definition fastapi_confidence :: "real \<Rightarrow> string" where
  "fastapi_confidence c =
     (if c > 0.8 then ''very_high''
      else if c > 0.5 then ''high''
      else if c > 0.2 then ''medium''
      else ''low'')"

text \<open>
  app.py, \<open>predict\<close>. \<open>req\<close> is what \<open>request.get_json()\<close> does: it returns the
  decoded body or raises. \<open>exc_str\<close> is Python's \<open>str\<close> on an exception. Every
  exception raised inside the \<open>try\<close> becomes a 500 response.
\<close>

definition flask_predict ::
  "('v, 'c, 'x) sklearn \<Rightarrow> (exn \<Rightarrow> string) \<Rightarrow> ('v, 'c) detector \<Rightarrow> json result \<Rightarrow> response" where
  "flask_predict lib exc_str d req =
     (if \<not> is_trained d then (500, ErrorBody ''Model not loaded'')
      else case req of
        Inl e \<Rightarrow> (500, ErrorBody (exc_str e))
      | Inr data \<Rightarrow>
      (case (if py_not data then Inr True
             else case py_in ''text'' data of Inl e \<Rightarrow> Inl e | Inr b \<Rightarrow> Inr (\<not> b)) of
        Inl e \<Rightarrow> (500, ErrorBody (exc_str e))
      | Inr True \<Rightarrow> (400, ErrorBody (''Missing '' @ [dquote] @ ''text'' @ [dquote] @ '' field''))
      | Inr False \<Rightarrow>
      (case py_getitem data ''text'' of
        Inl e \<Rightarrow> (500, ErrorBody (exc_str e))
      | Inr v \<Rightarrow>
      (case strip_method v of
        Inl e \<Rightarrow> (500, ErrorBody (exc_str e))
      | Inr t \<Rightarrow>
      (if t = [] then (400, ErrorBody ''Text cannot be empty'')
       else case fst (predict lib d t) of
        Inl e \<Rightarrow> (500, ErrorBody (exc_str e))
      | Inr (lab, ai_prob, human_prob) \<Rightarrow>
          (let c = \<bar>ai_prob - human_prob\<bar>
           in (200, PredictBody
                 \<lparr> r_label = lab,
                   r_ai_probability = py_round ai_prob 4,
                   r_human_probability = py_round human_prob 4,
                   r_confidence = flask_confidence c,
                   r_certainty = py_round c 4,
                   r_text_length = length t,
                   r_word_count = length (py_split t) \<rparr>)))))))"

text \<open>fastapi_app.py, the validator \<open>PredictRequest.text_not_empty\<close>.\<close>

definition text_not_empty :: "string \<Rightarrow> string result" where
  "text_not_empty v =
     (if py_strip v = [] then Inl (ValueError ''Text cannot be empty'') else Inr (py_strip v))"

text \<open>
  The request model \<open>PredictRequest\<close> applied to a decoded body by FastAPI: the body
  is an object with a member \<open>text\<close> that is a string (or that pydantic coerces to
  one: \<open>coerce\<close>, which depends on the pydantic version) and passes the validator.
  \<open>None\<close> is a validation error, answered with status 422 before the handler runs.
\<close>

definition parse_request :: "(json \<Rightarrow> string option) \<Rightarrow> json \<Rightarrow> string option" where
  "parse_request coerce b =
     (case b of
        JObj kvs \<Rightarrow>
          (case map_of (rev kvs) ''text'' of
             None \<Rightarrow> None
           | Some v \<Rightarrow>
               (case (case v of JStr s \<Rightarrow> Some s | _ \<Rightarrow> coerce v) of
                  None \<Rightarrow> None
                | Some s \<Rightarrow> (case text_not_empty s of Inl e \<Rightarrow> None | Inr t \<Rightarrow> Some t)))
      | _ \<Rightarrow> None)"

text \<open>
  fastapi_app.py, \<open>predict\<close>: the handler of a validated request. The
  \<open>HTTPException\<close> raised for a detector that is not trained is raised inside the
  \<open>try\<close>, so the \<open>except Exception\<close> clause catches it too and raises the final
  \<open>HTTPException\<close> with \<open>str(e)\<close> as its detail.
\<close>

definition fastapi_predict ::
  "('v, 'c, 'x) sklearn \<Rightarrow> (exn \<Rightarrow> string) \<Rightarrow> ('v, 'c) detector \<Rightarrow> string
     \<Rightarrow> predict_response result" where
  "fastapi_predict lib exc_str d request_text =
     (case (if \<not> is_trained d then Inl (HTTPException 500 ''Model not loaded'')
            else case fst (predict lib d request_text) of
              Inl e \<Rightarrow> Inl e
            | Inr (lab, ai_prob, human_prob) \<Rightarrow>
                (let c = \<bar>ai_prob - human_prob\<bar>
                 in Inr \<lparr> r_label = lab,
                          r_ai_probability = py_round ai_prob 4,
                          r_human_probability = py_round human_prob 4,
                          r_confidence = fastapi_confidence c,
                          r_certainty = py_round c 4,
                          r_text_length = length request_text,
                          r_word_count = length (py_split request_text) \<rparr>)) of
        Inl e \<Rightarrow> Inl (HTTPException 500 (exc_str e))
      | Inr r \<Rightarrow> Inr r)"

text \<open>The route \<open>POST /predict\<close> of the FastAPI surface: validation, then the handler.\<close>

definition fastapi_route ::
  "('v, 'c, 'x) sklearn \<Rightarrow> (exn \<Rightarrow> string) \<Rightarrow> (json \<Rightarrow> string option) \<Rightarrow> ('v, 'c) detector
     \<Rightarrow> json \<Rightarrow> response" where
  "fastapi_route lib exc_str coerce d b =
     (case parse_request coerce b of
        None \<Rightarrow> (422, ValidationErrors)
      | Some t \<Rightarrow>
          (case fastapi_predict lib exc_str d t of
             Inl (HTTPException status detail) \<Rightarrow> (status, DetailBody detail)
           | Inl _ \<Rightarrow> (500, DetailBody ''Internal Server Error'')
           | Inr r \<Rightarrow> (200, PredictBody r)))"

section \<open>Notions the properties are stated with\<close>

text \<open>
  The confidence band in the words of the specification: the boundary values 0.2, 0.5 and
  0.8 belong to the lower band.
\<close>

definition spec_band :: "real \<Rightarrow> string" where
  "spec_band c =
     (if c \<le> 0.2 then ''low''
      else if c \<le> 0.5 then ''medium''
      else if c \<le> 0.8 then ''high''
      else ''very_high'')"

text \<open>
  What scikit-learn promises of \<open>MultinomialNB.predict_proba\<close>: a row has one entry
  per class, every entry is a probability, and the entries of a row add up to 1 within
  the rounding of the floating-point normalisation.
\<close>

definition proba_contract :: "('v, 'c, 'x) sklearn \<Rightarrow> 'c \<Rightarrow> bool" where
  "proba_contract lib c =
     (\<forall>X rows. predict_proba lib c X = Inr rows \<longrightarrow>
        (\<forall>row \<in> set rows. length row = length (classes_of lib c)
            \<and> (\<forall>p \<in> set row. 0 \<le> p \<and> p \<le> 1)
            \<and> \<bar>sum_list row - 1\<bar> \<le> 1 / 10 ^ 6))"

text \<open>
  The data model's invariant on the training labels (each is 0 or 1), as it shows in the
  fitted classifier: \<open>classes_\<close> are the distinct labels seen.
\<close>

definition binary_labels :: "('v, 'c, 'x) sklearn \<Rightarrow> 'c \<Rightarrow> bool" where
  "binary_labels lib c = (distinct (classes_of lib c) \<and> set (classes_of lib c) \<subseteq> {0, 1})"

text \<open>
  The member \<open>text\<close> of a decoded body (none when the body is not an object), and
  the bodies with no usable text: the member is missing, or it is a string that is empty
  after trimming.
\<close>

definition text_member :: "json \<Rightarrow> json option" where
  "text_member b = (case b of JObj kvs \<Rightarrow> map_of (rev kvs) ''text'' | _ \<Rightarrow> None)"

definition blank_text :: "json \<Rightarrow> bool" where
  "blank_text b =
     (case text_member b of
        None \<Rightarrow> True
      | Some (JStr s) \<Rightarrow> py_strip s = []
      | Some _ \<Rightarrow> False)"

text \<open>
  Two detectors with the same hyperparameters: the five attributes \<open>__init__\<close> sets
  and \<open>train\<close> reads.
\<close>

definition same_hyperparameters :: "('v, 'c) detector \<Rightarrow> ('v, 'c) detector \<Rightarrow> bool" where
  "same_hyperparameters d1 d2 =
     (max_features d1 = max_features d2 \<and> ngram_range d1 = ngram_range d2
      \<and> alpha d1 = alpha d2 \<and> min_df d1 = min_df d2 \<and> max_df d1 = max_df d2)"

text \<open>
  What scikit-learn promises of \<open>train_test_split\<close> with an integer
  \<open>random_state\<close>: the split is drawn from a generator of its own, seeded with that
  integer, and does not depend on the state of the global generator. Nothing is promised
  of a call with \<open>random_state\<close> \<open>None\<close>.
\<close>

definition seeded_split :: "('v, 'c, 'x) sklearn \<Rightarrow> bool" where
  "seeded_split lib =
     (\<forall>X y ts seed g1 g2.
        train_test_split lib X y ts (Some seed) g1 = train_test_split lib X y ts (Some seed) g2)"

text \<open>The invariant of the detector: a trained detector holds no \<open>None\<close> model.\<close>

definition nonnull :: "('v, 'c) detector \<Rightarrow> bool" where
  "nonnull d = (is_trained d \<longrightarrow> vectorizer d \<noteq> PyNone \<and> classifier d \<noteq> PyNone)"

text \<open>
  Python's \<open>str\<close> on an exception: the message of a built-in exception, the quoted
  key of a \<open>KeyError\<close>, and \<open>status: detail\<close> for Starlette's
  \<open>HTTPException\<close>. The handlers take \<open>str\<close> as a parameter; this is the
  instance the concrete evaluations use.
\<close>

fun decimal :: "nat \<Rightarrow> string" where
  "decimal n =
     (if n < 10 then [''0123456789'' ! n]
      else decimal (n div 10) @ [''0123456789'' ! (n mod 10)])"

fun py_str :: "exn \<Rightarrow> string" where
  "py_str (HTTPException status detail) = decimal status @ '': '' @ detail"
| "py_str (KeyError k) = [CHR 0x27] @ k @ [CHR 0x27]"
| "py_str (ValueError m) = m"
| "py_str (TypeError m) = m"
| "py_str (AttributeError m) = m"
| "py_str (IndexError m) = m"
| "py_str (FileNotFoundError m) = m"
| "py_str (NotFittedError m) = m"
| "py_str (ParserError m) = m"

section \<open>A small concrete library and detector, for evaluating the definitions\<close>

text \<open>
  A classifier state is its \<open>classes_\<close> and the one probability row it answers with;
  a feature matrix is the list of texts. The split keeps every row on both sides; without
  a seed it reverses the test rows when the state of the global generator is odd.
\<close>

definition toy_lib :: "(unit, int list \<times> real list, string list) sklearn" where
  "toy_lib = \<lparr>
     astype_str = map (\<lambda>c. case c of CellStr s \<Rightarrow> s | _ \<Rightarrow> ''nan''),
     astype_int = (\<lambda>cs. if list_all (\<lambda>c. case c of CellInt _ \<Rightarrow> True | _ \<Rightarrow> False) cs
                         then Inr (map (\<lambda>c. case c of CellInt i \<Rightarrow> i | _ \<Rightarrow> 0) cs)
                         else Inl (ValueError ''invalid literal for int()'')),
     fit_transform = (\<lambda>ps texts. if texts = [] then Inl (ValueError ''empty vocabulary'')
                                  else Inr ((), texts)),
     transform = (\<lambda>v texts. Inr texts),
     np_random = 0,
     train_test_split = (\<lambda>X y ts random_state g.
        case random_state of
          Some seed \<Rightarrow> Inr (X, X, y, y)
        | None \<Rightarrow> if even g then Inr (X, X, y, y) else Inr (X, rev X, y, y)),
     nb_fit = (\<lambda>a X y. Inr ([0, 1], [1/4, 3/4])),
     nb_predict = (\<lambda>c X. Inr (map (\<lambda>t. if t = ''as an AI'' then 1 else 0) X)),
     predict_proba = (\<lambda>c X. Inr (map (\<lambda>t. snd c) X)),
     classes_of = fst,
     accuracy_score = (\<lambda>y_true y_pred. if y_true = y_pred then 1 else 0),
     eval_report = (\<lambda>y_true y_pred. None) \<rparr>"

definition toy_params :: tfidf_params where
  "toy_params = \<lparr> p_max_features = 15000, p_ngram_range = (1, 3), p_min_df = 2, p_max_df = 0.9 \<rparr>"

definition toy_detector :: "int list \<Rightarrow> real list \<Rightarrow> (unit, int list \<times> real list) detector" where
  "toy_detector cs row =
     init \<lparr> vectorizer := TfidfVectorizer toy_params (Some ()),
            classifier := MultinomialNB 0.01 (Some (cs, row)),
            is_trained := True \<rparr>"

text \<open>
  A file system holding a training set of two rows and a CSV file with the two columns
  and no row.
\<close>

definition toy_fs :: "(unit, int list \<times> real list) fs" where
  "toy_fs = [''data.csv'' \<mapsto> CsvFile [(''text'', [CellStr ''a cat'', CellStr ''as an AI'']),
                                    (''generated'', [CellInt 0, CellInt 1])],
             ''empty.csv'' \<mapsto> CsvFile [(''text'', []), (''generated'', [])]]"

section \<open>Properties of predict\<close>

lemma predict_success_label:
  assumes "fst (predict lib d text) = Inr (label, ai, human)"
  shows "label = (if ai > 0.5 then ''AI'' else ''Human'')"
  using assms
  by (auto simp: predict_def split: if_splits sum.splits)

lemma toy_predict_half:
  "fst (predict toy_lib (toy_detector [0, 1] [1/2, 1/2]) ''hello'') = Inr (''Human'', 1/2, 1/2)"
  by (simp add: predict_def toy_lib_def toy_detector_def init_def vectorizer_transform_def
      classifier_predict_proba_def classifier_classes_def py_index_def class_to_idx_def
      dict_get_def)

text \<open>
  C1. Whenever \<open>predict\<close> returns, the label is \<open>AI\<close> exactly when the returned
  \<open>ai_probability\<close> is greater than 0.5; at exactly 0.5 the label is \<open>Human\<close>.
\<close>

theorem predict_label_iff_ai_gt_half:
  assumes "fst (predict lib d text) = Inr (label, ai, human)"
  shows "(label = ''AI'' \<longleftrightarrow> ai > 0.5) \<and> (ai = 0.5 \<longrightarrow> label = ''Human'')"
  using predict_success_label [OF assms] by simp

theorem predict_label_iff_ai_gt_half_witness:
  "fst (predict toy_lib (toy_detector [0, 1] [1/2, 1/2]) ''hello'') = Inr (''Human'', 1/2, 1/2)
   \<and> ''Human'' \<noteq> ''AI'' \<and> \<not> (1/2 :: real) > 0.5"
  using predict_label_iff_ai_gt_half [OF toy_predict_half] toy_predict_half by simp


lemma predict_success_elim:
  assumes "fst (predict lib d t) = Inr (lab, ai, human)"
  obtains X rows probs cs i0 i1 where
    "is_trained d"
    "vectorizer_transform lib (vectorizer d) [t] = Inr X"
    "classifier_predict_proba lib (classifier d) X = Inr rows"
    "py_index rows 0 = Inr probs"
    "classifier_classes lib (classifier d) = Inr cs"
    "dict_get (class_to_idx cs) 0 = Inr i0" "py_index probs i0 = Inr human"
    "dict_get (class_to_idx cs) 1 = Inr i1" "py_index probs i1 = Inr ai"
  using assms by (auto simp: predict_def split: if_splits sum.splits)

lemma toy_predict_quarter:
  "fst (predict toy_lib (toy_detector [0, 1] [1/4, 3/4]) ''hello'') = Inr (''AI'', 3/4, 1/4)"
  by (simp add: predict_def toy_lib_def toy_detector_def init_def vectorizer_transform_def
      classifier_predict_proba_def classifier_classes_def py_index_def class_to_idx_def
      dict_get_def)

section \<open>The confidence band\<close>

text \<open>
  C2. For every certainty in [0, 1], both surfaces compute the band the specification
  describes: \<open>very_high\<close> above 0.8, \<open>high\<close> above 0.5, \<open>medium\<close> above 0.2,
  \<open>low\<close> otherwise; the comparisons are strict, so 0.8, 0.5 and 0.2 fall into the
  lower band.
\<close>

theorem confidence_band_strict:
  assumes "0 \<le> c" and "c \<le> 1"
  shows "flask_confidence c = spec_band c \<and> fastapi_confidence c = spec_band c
       \<and> flask_confidence 0.8 = ''high'' \<and> fastapi_confidence 0.8 = ''high''
       \<and> flask_confidence 0.5 = ''medium'' \<and> fastapi_confidence 0.5 = ''medium''
       \<and> flask_confidence 0.2 = ''low'' \<and> fastapi_confidence 0.2 = ''low''"
  by (simp add: flask_confidence_def fastapi_confidence_def spec_band_def)

theorem confidence_band_strict_witness:
  "(0::real) \<le> 9/10 \<and> (9/10::real) \<le> 1
   \<and> flask_confidence (9/10) = ''very_high'' \<and> fastapi_confidence (9/10) = ''very_high''
   \<and> spec_band (9/10) = ''very_high''"
proof -
  have lo: "(0::real) \<le> 9/10" and hi: "(9/10::real) \<le> 1" by simp_all
  have "spec_band (9/10) = ''very_high''" by (simp add: spec_band_def)
  with confidence_band_strict [OF lo hi] show ?thesis by simp
qed

text \<open>
  The band a response carries is the band of \<open>|ai_prob - human_prob|\<close> of the
  prediction the handler made, on both surfaces.
\<close>

lemma band_eq: "flask_confidence c = spec_band c" "fastapi_confidence c = spec_band c"
  by (simp_all add: flask_confidence_def fastapi_confidence_def spec_band_def)

lemma flask_response_confidence:
  assumes "flask_predict lib exc_str d req = (200, PredictBody r)"
  shows "\<exists>t lab ai human. fst (predict lib d t) = Inr (lab, ai, human)
           \<and> r_label r = lab \<and> r_confidence r = spec_band \<bar>ai - human\<bar>"
  using assms
  by (auto simp: flask_predict_def Let_def band_eq split: if_splits sum.splits bool.splits)
    blast

lemma fastapi_response_confidence:
  assumes "fastapi_predict lib exc_str d t = Inr r"
  shows "\<exists>lab ai human. fst (predict lib d t) = Inr (lab, ai, human)
           \<and> r_label r = lab \<and> r_confidence r = spec_band \<bar>ai - human\<bar>"
  using assms
  by (auto simp: fastapi_predict_def Let_def band_eq split: if_splits sum.splits)

section \<open>The probabilities predict returns\<close>

lemma two_classes:
  assumes "distinct cs" and "set cs \<subseteq> {0, 1::int}" and "0 \<in> set cs" and "1 \<in> set cs"
  shows "cs = [0, 1] \<or> cs = [1, 0]"
proof -
  have "card (set cs) \<le> 2"
    using assms(2) card_mono [of "{0, 1::int}" "set cs"] by simp
  then have "length cs \<le> 2"
    using assms(1) by (simp add: distinct_card)
  then show ?thesis
    using assms by (cases cs; cases "tl cs"; cases "tl (tl cs)") auto
qed

lemma dict_get_in_classes:
  assumes "dict_get (class_to_idx cs) k = Inr i"
  shows "k \<in> set cs"
proof -
  from assms have "map_of (rev (zip cs [0..<length cs])) k \<noteq> None"
    by (auto simp: dict_get_def class_to_idx_def split: option.splits)
  then have "k \<in> fst ` set (rev (zip cs [0..<length cs]))"
    by (simp only: map_of_eq_None_iff not_not)
  then show ?thesis by (auto dest: set_zip_leftD)
qed

lemma toy_contract: "proba_contract toy_lib ([0, 1], [1/4, 3/4])"
  by (auto simp: proba_contract_def toy_lib_def)

lemma toy_binary: "binary_labels toy_lib ([0, 1], [1/4, 3/4])"
  by (simp add: binary_labels_def toy_lib_def)

lemma toy_contract_three: "proba_contract toy_lib ([0, 1, 2], [1/5, 3/10, 1/2])"
  by (auto simp: proba_contract_def toy_lib_def)

text \<open>
  C3, as stated, fails. \<open>train\<close> casts the labels with \<open>astype(int)\<close> and checks
  no range, so a classifier can have a third class. Its rows are probability rows, and
  \<open>predict\<close> returns the entries of the classes 0 and 1 only: they do not add up to 1.
\<close>

theorem three_classes_counterexample:
  "proba_contract toy_lib ([0, 1, 2], [1/5, 3/10, 1/2])
   \<and> fst (predict toy_lib (toy_detector [0, 1, 2] [1/5, 3/10, 1/2]) ''hello'')
       = Inr (''Human'', 3/10, 1/5)
   \<and> \<not> \<bar>(3/10 :: real) + 1/5 - 1\<bar> \<le> 1 / 10 ^ 6"
proof -
  have "fst (predict toy_lib (toy_detector [0, 1, 2] [1/5, 3/10, 1/2]) ''hello'')
      = Inr (''Human'', 3/10, 1/5)"
    by (simp add: predict_def toy_lib_def toy_detector_def init_def vectorizer_transform_def
        classifier_predict_proba_def classifier_classes_def py_index_def class_to_idx_def
        dict_get_def)
  then show ?thesis
    using toy_contract_three by simp
qed

text \<open>
  C3, amended. Whenever \<open>predict\<close> returns on a detector whose classifier has no class
  but 0 and 1 (the labels of the data model) and answers with probability rows as
  scikit-learn promises, the returned \<open>ai_probability\<close> and
  \<open>human_probability\<close> add up to 1 within \<open>1e-6\<close> and each lies in [0, 1]:
  \<open>predict\<close> picks exactly the two entries of the row, whatever the order of
  \<open>classes_\<close>.
\<close>

theorem predict_probabilities_sum:
  assumes ok: "fst (predict lib d t) = Inr (lab, ai, human)"
    and clf: "classifier d = MultinomialNB a (Some c)"
    and contract: "proba_contract lib c"
    and labels: "binary_labels lib c"
  shows "\<bar>ai + human - 1\<bar> \<le> 1 / 10 ^ 6 \<and> 0 \<le> ai \<and> ai \<le> 1 \<and> 0 \<le> human \<and> human \<le> 1"
proof -
  from ok obtain X rows probs cs i0 i1 where
    rows: "classifier_predict_proba lib (classifier d) X = Inr rows"
    and probs: "py_index rows 0 = Inr probs"
    and cs: "classifier_classes lib (classifier d) = Inr cs"
    and i0: "dict_get (class_to_idx cs) 0 = Inr i0" and h: "py_index probs i0 = Inr human"
    and i1: "dict_get (class_to_idx cs) 1 = Inr i1" and a: "py_index probs i1 = Inr ai"
    by (rule predict_success_elim)
  from rows clf have rows': "predict_proba lib c X = Inr rows"
    by (simp add: classifier_predict_proba_def)
  from cs clf have cs': "cs = classes_of lib c"
    by (simp add: classifier_classes_def)
  from probs have "probs \<in> set rows"
    by (auto simp: py_index_def split: if_splits)
  with contract rows' have len: "length probs = length cs"
    and range: "\<forall>p \<in> set probs. 0 \<le> p \<and> p \<le> 1"
    and total: "\<bar>sum_list probs - 1\<bar> \<le> 1 / 10 ^ 6"
    unfolding proba_contract_def cs' by blast+
  from labels cs' have "distinct cs" "set cs \<subseteq> {0, 1}"
    by (simp_all add: binary_labels_def)
  moreover have "0 \<in> set cs" "1 \<in> set cs"
    using i0 i1 by (auto dest: dict_get_in_classes)
  ultimately have two: "cs = [0, 1] \<or> cs = [1, 0]"
    by (rule two_classes)
  then have idx: "(i0 = 0 \<and> i1 = 1) \<or> (i0 = 1 \<and> i1 = 0)"
    using i0 i1 by (auto simp: dict_get_def class_to_idx_def)
  from two len obtain p q where pq: "probs = [p, q]"
    by (cases probs; cases "tl probs") auto
  from idx h a pq have "ai + human = sum_list probs"
    by (auto simp: py_index_def)
  moreover from idx h a pq have "ai \<in> set probs" "human \<in> set probs"
    by (auto simp: py_index_def)
  ultimately show ?thesis
    using total range by auto
qed

theorem predict_probabilities_sum_witness:
  "fst (predict toy_lib (toy_detector [0, 1] [1/4, 3/4]) ''hello'') = Inr (''AI'', 3/4, 1/4)
   \<and> classifier (toy_detector [0, 1] [1/4, 3/4]) = MultinomialNB 0.01 (Some ([0, 1], [1/4, 3/4]))
   \<and> proba_contract toy_lib ([0, 1], [1/4, 3/4]) \<and> binary_labels toy_lib ([0, 1], [1/4, 3/4])
   \<and> \<bar>(3/4 :: real) + 1/4 - 1\<bar> \<le> 1 / 10 ^ 6"
proof -
  have clf: "classifier (toy_detector [0, 1] [1/4, 3/4])
      = MultinomialNB 0.01 (Some ([0, 1], [1/4, 3/4]))"
    by (simp add: toy_detector_def)
  from predict_probabilities_sum [OF toy_predict_quarter clf toy_contract toy_binary]
  show ?thesis
    using toy_predict_quarter clf toy_contract toy_binary by simp
qed

section \<open>A detector that is not trained\<close>

text \<open>
  C4. On a detector with \<open>is_trained\<close> false, \<open>predict\<close> raises
  \<open>ValueError('Model not loaded!')\<close>; the Flask handler answers 500 with the error
  \<open>Model not loaded\<close>; the FastAPI handler raises an \<open>HTTPException\<close> with status
  500 whose detail is \<open>str\<close> of the exception \<open>HTTPException(500, 'Model not
  loaded')\<close>, and the route answers every request that passes validation with it.
\<close>

theorem not_trained_is_500:
  assumes "\<not> is_trained d"
  shows "fst (predict lib d t) = Inl (ValueError ''Model not loaded!'')
       \<and> flask_predict lib exc_str d req = (500, ErrorBody ''Model not loaded'')
       \<and> fastapi_predict lib exc_str d t
           = Inl (HTTPException 500 (exc_str (HTTPException 500 ''Model not loaded'')))
       \<and> fastapi_route lib exc_str coerce d b
           = (case parse_request coerce b of
                None \<Rightarrow> (422, ValidationErrors)
              | Some t' \<Rightarrow> (500, DetailBody (exc_str (HTTPException 500 ''Model not loaded''))))"
  using assms
  by (simp add: predict_def flask_predict_def fastapi_predict_def fastapi_route_def
      split: option.splits)

theorem not_trained_is_500_witness:
  "\<not> is_trained (init :: (unit, int list \<times> real list) detector)
   \<and> fst (predict toy_lib init ''hello'') = Inl (ValueError ''Model not loaded!'')
   \<and> flask_predict toy_lib py_str init (Inr (JObj [(''text'', JStr ''hello'')]))
       = (500, ErrorBody ''Model not loaded'')
   \<and> fastapi_predict toy_lib py_str init ''hello''
       = Inl (HTTPException 500 ''500: Model not loaded'')
   \<and> fastapi_route toy_lib py_str (\<lambda>j. None) init (JObj [(''text'', JStr ''hello'')])
       = (500, DetailBody ''500: Model not loaded'')"
proof -
  have u: "\<not> is_trained (init :: (unit, int list \<times> real list) detector)"
    by (simp add: init_def)
  have p: "parse_request (\<lambda>j. None) (JObj [(''text'', JStr ''hello'')]) = Some ''hello''"
    by (simp add: parse_request_def text_not_empty_def py_strip_def isspace_def)
  from not_trained_is_500 [OF u, of toy_lib "''hello''" py_str
      "Inr (JObj [(''text'', JStr ''hello'')])" "\<lambda>j. None" "JObj [(''text'', JStr ''hello'')]"]
  show ?thesis
    using u p by simp
qed

section \<open>predict leaves the detector as it is\<close>

text \<open>
  C9. \<open>predict\<close> assigns no attribute: after the call, whether it returned or raised,
  the detector is the detector before the call, so \<open>is_trained\<close>, \<open>vectorizer\<close>,
  \<open>classifier\<close> and the hyperparameters are unchanged.
\<close>

theorem predict_frame:
  "snd (predict lib d t) = d
   \<and> is_trained (snd (predict lib d t)) = is_trained d
   \<and> vectorizer (snd (predict lib d t)) = vectorizer d
   \<and> classifier (snd (predict lib d t)) = classifier d
   \<and> max_features (snd (predict lib d t)) = max_features d
   \<and> ngram_range (snd (predict lib d t)) = ngram_range d
   \<and> alpha (snd (predict lib d t)) = alpha d"
proof -
  have "snd (predict lib d t) = d"
    by (simp add: predict_def split: sum.splits prod.splits)
  then show ?thesis by simp
qed


section \<open>Requests without a usable text\<close>

lemma map_of_rev_None: "map_of (rev kvs) k = None \<longleftrightarrow> k \<notin> set (map fst kvs)"
  by (simp add: map_of_eq_None_iff)

lemma map_of_rev_Some: "map_of (rev kvs) k = Some v \<Longrightarrow> k \<in> set (map fst kvs)"
  using map_of_rev_None [of kvs k] by auto

text \<open>
  C5, as stated, fails on the Flask surface: the handler checks \<open>is_trained\<close> before
  it looks at the body, so a body without \<open>text\<close> sent to a detector that is not
  trained is answered with 500.
\<close>

theorem flask_untrained_counterexample:
  "fst (flask_predict toy_lib py_str (init :: (unit, int list \<times> real list) detector)
          (Inr (JObj []))) = 500"
  by (simp add: flask_predict_def init_def)

text \<open>
  C5, amended. A JSON object whose member \<open>text\<close> is missing, or is a string that is
  empty after trimming, is answered with 422 by the FastAPI route whatever the state of
  the detector, and by the Flask handler with 400 when the model is loaded and with 500
  when it is not.
\<close>

theorem blank_request_rejected:
  assumes "blank_text (JObj kvs)"
  shows "fastapi_route lib exc_str coerce d (JObj kvs) = (422, ValidationErrors)
       \<and> fst (flask_predict lib exc_str d (Inr (JObj kvs))) = (if is_trained d then 400 else 500)"
proof (cases "map_of (rev kvs) ''text''")
  case None
  then have "''text'' \<notin> set (map fst kvs)"
    by (simp add: map_of_rev_None)
  with None show ?thesis
    by (auto simp: fastapi_route_def parse_request_def flask_predict_def)
next
  case (Some v)
  with assms obtain s where v: "v = JStr s" and s: "py_strip s = []"
    by (auto simp: blank_text_def text_member_def split: json.splits)
  from Some have "''text'' \<in> set (map fst kvs)"
    by (rule map_of_rev_Some)
  moreover from this have "kvs \<noteq> []"
    by auto
  ultimately show ?thesis
    using Some v s
    by (auto simp: fastapi_route_def parse_request_def flask_predict_def text_not_empty_def)
qed

theorem blank_request_rejected_witness:
  "blank_text (JObj [(''text'', JStr ''  '')])
   \<and> fastapi_route toy_lib py_str (\<lambda>j. None) (toy_detector [0, 1] [1/4, 3/4])
        (JObj [(''text'', JStr ''  '')]) = (422, ValidationErrors)
   \<and> fst (flask_predict toy_lib py_str (toy_detector [0, 1] [1/4, 3/4])
        (Inr (JObj [(''text'', JStr ''  '')]))) = 400"
proof -
  have b: "blank_text (JObj [(''text'', JStr ''  '')])"
    by (simp add: blank_text_def text_member_def py_strip_def isspace_def)
  have t: "is_trained (toy_detector [0, 1] [1/4, 3/4])"
    by (simp add: toy_detector_def)
  from blank_request_rejected [OF b, of toy_lib py_str "\<lambda>j. None" "toy_detector [0, 1] [1/4, 3/4]"]
  show ?thesis
    using b t by simp
qed

section \<open>The model directory\<close>

lemma path_join_relative:
  assumes "b \<noteq> []" and "hd b \<noteq> CHR ''/''"
  shows "path_join a b = (if a = [] \<or> last a = CHR ''/'' then a else a @ ''/'') @ b"
  using assms by (simp add: path_join_def)

lemma artifact_paths_distinct:
  "path_join a ''vectorizer.joblib'' \<noteq> path_join a ''classifier.joblib''"
  "path_join a ''vectorizer.joblib'' \<noteq> path_join a ''config.joblib''"
  "path_join a ''classifier.joblib'' \<noteq> path_join a ''config.joblib''"
  by (simp_all add: path_join_relative)

text \<open>
  C6. \<open>model_exists\<close> holds exactly when the three artifact files of the directory
  exist. Deleting any one of them makes it false, while the existence of the other two is
  as before.
\<close>

theorem model_exists_iff_all_three:
  "(model_exists fs dir \<longleftrightarrow>
      path_exists fs (path_join dir ''vectorizer.joblib'')
      \<and> path_exists fs (path_join dir ''classifier.joblib'')
      \<and> path_exists fs (path_join dir ''config.joblib''))
   \<and> (\<forall>f \<in> set artifact_files.
         \<not> model_exists (fs(path_join dir f := None)) dir
         \<and> (\<forall>g \<in> set artifact_files. g \<noteq> f \<longrightarrow>
               path_exists (fs(path_join dir f := None)) (path_join dir g)
                 = path_exists fs (path_join dir g)))"
  using artifact_paths_distinct [of dir]
  by (auto simp: model_exists_def artifact_files_def path_exists_def)

theorem model_exists_iff_all_three_witness:
  "model_exists (save_model (toy_detector [0, 1] [1/4, 3/4]) ''model'' toy_fs) ''model''
   \<and> ''classifier.joblib'' \<in> set artifact_files
   \<and> \<not> model_exists ((save_model (toy_detector [0, 1] [1/4, 3/4]) ''model'' toy_fs)
          (path_join ''model'' ''classifier.joblib'' := None)) ''model''
   \<and> path_exists ((save_model (toy_detector [0, 1] [1/4, 3/4]) ''model'' toy_fs)
          (path_join ''model'' ''classifier.joblib'' := None))
        (path_join ''model'' ''vectorizer.joblib'')
   \<and> path_exists ((save_model (toy_detector [0, 1] [1/4, 3/4]) ''model'' toy_fs)
          (path_join ''model'' ''classifier.joblib'' := None))
        (path_join ''model'' ''config.joblib'')"
proof -
  have m: "''classifier.joblib'' \<in> set artifact_files"
    by (simp add: artifact_files_def)
  have e: "model_exists (save_model (toy_detector [0, 1] [1/4, 3/4]) ''model'' toy_fs) ''model''"
    by (simp add: model_exists_def artifact_files_def path_exists_def save_model_def
        joblib_dump_def)
  have v: "path_exists (save_model (toy_detector [0, 1] [1/4, 3/4]) ''model'' toy_fs)
             (path_join ''model'' ''vectorizer.joblib'')"
    "path_exists (save_model (toy_detector [0, 1] [1/4, 3/4]) ''model'' toy_fs)
             (path_join ''model'' ''config.joblib'')"
    by (simp_all add: path_exists_def save_model_def joblib_dump_def)
  from model_exists_iff_all_three
    [of "save_model (toy_detector [0, 1] [1/4, 3/4]) ''model'' toy_fs" "''model''"]
  show ?thesis
    using m e v by (simp add: artifact_files_def)
qed

section \<open>Saving and loading\<close>

lemma predict_reads:
  assumes "is_trained d' = is_trained d" and "vectorizer d' = vectorizer d"
    and "classifier d' = classifier d"
  shows "fst (predict lib d' t) = fst (predict lib d t)"
  using assms by (simp add: predict_def split: sum.splits)

lemma load_after_save:
  "load_model d0 dir (save_model d dir fs) =
     (Inr (), d0\<lparr>vectorizer := vectorizer d, classifier := classifier d,
                max_features := max_features d, ngram_range := ngram_range d,
                alpha := alpha d, is_trained := True\<rparr>)"
  using artifact_paths_distinct [of dir]
  by (simp add: load_model_def save_model_def joblib_load_def joblib_dump_def)

text \<open>
  C7. After \<open>save_model\<close> of a trained detector to a directory, \<open>load_model\<close> from
  that directory into a fresh detector succeeds, and the loaded detector answers
  \<open>predict\<close> on every text as the original does: the same label and probabilities, or
  the same exception.
\<close>

theorem save_load_roundtrip:
  assumes "is_trained d"
  shows "fst (load_model init dir (save_model d dir fs)) = Inr ()
       \<and> fst (predict lib (snd (load_model init dir (save_model d dir fs))) t)
           = fst (predict lib d t)"
proof -
  have "fst (predict lib (snd (load_model init dir (save_model d dir fs))) t)
      = fst (predict lib d t)"
    using assms by (intro predict_reads) (simp_all add: load_after_save)
  then show ?thesis
    by (simp add: load_after_save)
qed

theorem save_load_roundtrip_witness:
  "is_trained (toy_detector [0, 1] [1/4, 3/4])
   \<and> fst (load_model init ''model''
            (save_model (toy_detector [0, 1] [1/4, 3/4]) ''model'' toy_fs)) = Inr ()
   \<and> fst (predict toy_lib
            (snd (load_model init ''model''
                    (save_model (toy_detector [0, 1] [1/4, 3/4]) ''model'' toy_fs))) ''hello'')
      = Inr (''AI'', 3/4, 1/4)"
proof -
  have t: "is_trained (toy_detector [0, 1] [1/4, 3/4])"
    by (simp add: toy_detector_def)
  from save_load_roundtrip [OF t, of "''model''" toy_fs toy_lib "''hello''"]
  show ?thesis
    using t toy_predict_quarter by simp
qed


section \<open>Training twice\<close>

lemma train_keeps_hyperparameters:
  "same_hyperparameters d (snd (train lib fs d p ts))"
  by (simp add: train_def same_hyperparameters_def Let_def
      split: sum.splits prod.splits option.splits)

lemma train_result_reads:
  assumes "same_hyperparameters d1 d2" and "read_csv fs1 p = read_csv fs2 p"
  shows "fst (train lib fs1 d1 p ts) = fst (train lib fs2 d2 p ts)"
  using assms
  by (simp add: train_def same_hyperparameters_def vectorizer_params_def Let_def
      split: sum.splits prod.splits option.splits)

lemma train_artifacts_read:
  assumes "same_hyperparameters d1 d2" and "read_csv fs1 p = read_csv fs2 p"
    and "fst (train lib fs1 d1 p ts) = Inr acc"
  shows "vectorizer (snd (train lib fs1 d1 p ts)) = vectorizer (snd (train lib fs2 d2 p ts))
       \<and> classifier (snd (train lib fs1 d1 p ts)) = classifier (snd (train lib fs2 d2 p ts))"
  using assms
  by (auto simp: train_def same_hyperparameters_def vectorizer_params_def Let_def
      split: sum.splits prod.splits option.splits)

lemma save_model_reads:
  assumes "vectorizer d = vectorizer d'" and "classifier d = classifier d'"
    and "max_features d = max_features d'" and "ngram_range d = ngram_range d'"
    and "alpha d = alpha d'"
  shows "save_model d dir fs = save_model d' dir fs"
  using assms by (simp add: save_model_def)

lemma toy_train:
  "train toy_lib toy_fs init ''data.csv'' (1/5) = (Inr 1, toy_detector [0, 1] [1/4, 3/4])"
  by (simp add: train_def read_csv_def toy_fs_def column_def toy_lib_def vectorizer_params_def
      init_def toy_detector_def toy_params_def)

lemma train_ignores_rng:
  assumes "seeded_split lib"
  shows "train (lib\<lparr>np_random := g\<rparr>) fs d p ts = train lib fs d p ts"
proof -
  have e: "train_test_split lib X y test_size (Some 42) g
      = train_test_split lib X y test_size (Some 42) (np_random lib)" for X y test_size
    using assms unfolding seeded_split_def by blast
  show ?thesis
    by (simp add: train_def vectorizer_params_def Let_def e cong: sum.case_cong)
qed

lemma toy_seeded: "seeded_split toy_lib"
  by (simp add: seeded_split_def toy_lib_def)

text \<open>
  The stand-in library does tell a seeded split from an unseeded one: without a seed the
  split follows the state of the global generator.
\<close>

lemma toy_unseeded_split_differs:
  "train_test_split toy_lib [''a cat'', ''as an AI''] [0, 1] (1/5) None 0
     \<noteq> train_test_split toy_lib [''a cat'', ''as an AI''] [0, 1] (1/5) None 1"
  by (simp add: toy_lib_def)

lemma toy_train_odd:
  "train (toy_lib\<lparr>np_random := 1\<rparr>)
     (save_model (toy_detector [0, 1] [1/4, 3/4]) ''model'' toy_fs)
     (toy_detector [0, 1] [1/4, 3/4]) ''data.csv'' (1/5)
   = (Inr 1, toy_detector [0, 1] [1/4, 3/4])"
  by (simp add: train_def read_csv_def save_model_def joblib_dump_def path_join_def toy_fs_def
      column_def toy_lib_def vectorizer_params_def init_def toy_detector_def toy_params_def)

text \<open>
  C8. \<open>train\<close> passes the constant \<open>random_state=42\<close> to the split, and a seeded
  split does not read the global random generator. So two runs of \<open>train\<close> on the same
  dataset, in whatever states the global generator and the detector's model attributes
  are (the hyperparameters being the same), report the same accuracy, or raise the same
  exception, and after a successful run \<open>save_model\<close> writes the same artifacts. A
  second run right after the first is such a pair of runs.
\<close>

theorem train_deterministic:
  assumes seeded: "seeded_split lib"
    and hyp: "same_hyperparameters d1 d2" and csv: "read_csv fs1 p = read_csv fs2 p"
  shows "fst (train (lib\<lparr>np_random := g1\<rparr>) fs1 d1 p ts)
           = fst (train (lib\<lparr>np_random := g2\<rparr>) fs2 d2 p ts)
       \<and> (\<forall>acc. fst (train (lib\<lparr>np_random := g1\<rparr>) fs1 d1 p ts) = Inr acc \<longrightarrow>
             save_model (snd (train (lib\<lparr>np_random := g1\<rparr>) fs1 d1 p ts)) dir fs0
               = save_model (snd (train (lib\<lparr>np_random := g2\<rparr>) fs2 d2 p ts)) dir fs0)"
proof -
  have r1: "train (lib\<lparr>np_random := g1\<rparr>) fs1 d1 p ts = train lib fs1 d1 p ts"
    and r2: "train (lib\<lparr>np_random := g2\<rparr>) fs2 d2 p ts = train lib fs2 d2 p ts"
    using seeded by (rule train_ignores_rng)+
  have "fst (train lib fs1 d1 p ts) = fst (train lib fs2 d2 p ts)"
    using hyp csv by (rule train_result_reads)
  moreover have "save_model (snd (train lib fs1 d1 p ts)) dir fs0
      = save_model (snd (train lib fs2 d2 p ts)) dir fs0"
    if ok: "fst (train lib fs1 d1 p ts) = Inr acc" for acc
  proof -
    have k1: "same_hyperparameters d1 (snd (train lib fs1 d1 p ts))"
      and k2: "same_hyperparameters d2 (snd (train lib fs2 d2 p ts))"
      by (rule train_keeps_hyperparameters)+
    from train_artifacts_read [OF hyp csv ok] show ?thesis
      using hyp k1 k2 by (intro save_model_reads) (simp_all add: same_hyperparameters_def)
  qed
  ultimately show ?thesis
    unfolding r1 r2 by blast
qed

theorem train_deterministic_witness:
  "seeded_split toy_lib
   \<and> same_hyperparameters init (toy_detector [0, 1] [1/4, 3/4])
   \<and> read_csv toy_fs ''data.csv''
       = read_csv (save_model (toy_detector [0, 1] [1/4, 3/4]) ''model'' toy_fs) ''data.csv''
   \<and> fst (train (toy_lib\<lparr>np_random := 0\<rparr>) toy_fs init ''data.csv'' (1/5)) = Inr 1
   \<and> fst (train (toy_lib\<lparr>np_random := 1\<rparr>)
            (save_model (toy_detector [0, 1] [1/4, 3/4]) ''model'' toy_fs)
            (toy_detector [0, 1] [1/4, 3/4]) ''data.csv'' (1/5)) = Inr 1
   \<and> save_model (snd (train (toy_lib\<lparr>np_random := 0\<rparr>) toy_fs init ''data.csv'' (1/5)))
        ''model'' toy_fs
       = save_model
           (snd (train (toy_lib\<lparr>np_random := 1\<rparr>)
                   (save_model (toy_detector [0, 1] [1/4, 3/4]) ''model'' toy_fs)
                   (toy_detector [0, 1] [1/4, 3/4]) ''data.csv'' (1/5))) ''model'' toy_fs"
proof -
  have h: "same_hyperparameters init (toy_detector [0, 1] [1/4, 3/4])"
    by (simp add: same_hyperparameters_def toy_detector_def)
  have c: "read_csv toy_fs ''data.csv''
       = read_csv (save_model (toy_detector [0, 1] [1/4, 3/4]) ''model'' toy_fs) ''data.csv''"
    by (simp add: read_csv_def save_model_def joblib_dump_def path_join_def toy_fs_def)
  have z: "toy_lib\<lparr>np_random := 0\<rparr> = toy_lib"
    by (simp add: toy_lib_def)
  from train_deterministic [OF toy_seeded h c, of 0 "1/5" 1 "''model''" toy_fs]
  show ?thesis
    using toy_seeded h c by (simp add: z toy_train toy_train_odd)
qed

section \<open>The invariant of a trained detector\<close>

lemma train_nonnull: "nonnull d \<Longrightarrow> nonnull (snd (train lib fs d p ts))"
  by (simp add: train_def nonnull_def Let_def split: sum.splits prod.splits option.splits)

lemma joblib_load_nonnull:
  "no_null_artifact fs \<Longrightarrow> joblib_load fs p = Inr obj \<Longrightarrow> obj \<noteq> PyNone"
  by (auto simp: no_null_artifact_def joblib_load_def split: option.splits fsfile.splits)

lemma load_nonnull:
  assumes "nonnull d" and "no_null_artifact fs"
  shows "nonnull (snd (load_model d dir fs))"
  using assms
  by (auto simp: load_model_def nonnull_def Let_def dest: joblib_load_nonnull
      split: sum.splits pyobj.splits)

lemma save_no_null:
  assumes "nonnull d" and "is_trained d" and "no_null_artifact fs"
  shows "no_null_artifact (save_model d dir fs)"
  using assms
  by (auto simp: save_model_def joblib_dump_def no_null_artifact_def nonnull_def)

lemma predict_unchanged: "snd (predict lib d t) = d"
  by (simp add: predict_def split: sum.splits prod.splits)

lemma step_inv:
  assumes "nonnull (fst s)" and "no_null_artifact (snd s)"
    and "case x of Save _ \<Rightarrow> is_trained (fst s) | _ \<Rightarrow> True"
  shows "nonnull (fst (step lib x s)) \<and> no_null_artifact (snd (step lib x s))"
  using assms
  by (cases s; cases x)
    (simp_all add: train_nonnull load_nonnull save_no_null predict_unchanged)

lemma run_inv:
  assumes "nonnull (fst s)" and "no_null_artifact (snd s)" and "saves_trained lib ops s"
  shows "nonnull (fst (run lib ops s)) \<and> no_null_artifact (snd (run lib ops s))"
  using assms
proof (induction ops arbitrary: s)
  case Nil
  then show ?case by simp
next
  case (Cons x xs)
  from Cons.prems have "nonnull (fst (step lib x s)) \<and> no_null_artifact (snd (step lib x s))"
    by (intro step_inv) simp_all
  with Cons.prems show ?case
    by (simp add: Cons.IH)
qed

lemma toy_fs_no_null: "no_null_artifact toy_fs"
  by (simp add: no_null_artifact_def toy_fs_def)

lemma toy_train_empty:
  "train toy_lib toy_fs (toy_detector [0, 1] [1/4, 3/4]) ''empty.csv'' (1/5)
     = (Inl (ValueError ''empty vocabulary''),
        (toy_detector [0, 1] [1/4, 3/4])\<lparr>vectorizer := TfidfVectorizer toy_params None\<rparr>)"
  by (simp add: train_def read_csv_def toy_fs_def column_def toy_lib_def vectorizer_params_def
      init_def toy_detector_def toy_params_def)


lemma toy_run:
  "fst (run toy_lib [Train ''data.csv'' (1/5), Save ''model'', Load ''model'', Predict ''hello'']
      (init, toy_fs)) = toy_detector [0, 1] [1/4, 3/4]"
  by (simp add: toy_train load_after_save predict_unchanged) (simp add: toy_detector_def init_def)

lemma toy_saves:
  "saves_trained toy_lib
     [Train ''data.csv'' (1/5), Save ''model'', Load ''model'', Predict ''hello''] (init, toy_fs)"
  by (simp add: toy_train) (simp add: toy_detector_def)

text \<open>
  C10, as stated, fails. \<open>save_model\<close> on a fresh detector dumps \<open>None\<close> twice, and
  \<open>load_model\<close> of that directory sets \<open>is_trained\<close> with both attributes
  \<open>None\<close>: \<open>predict\<close> passes its guard and raises \<open>AttributeError\<close> on
  \<open>None\<close>. And a \<open>train\<close> that raises in \<open>fit_transform\<close> on a detector that is
  already trained leaves the new, unfitted vectorizer in place.
\<close>

theorem save_untrained_counterexample:
  "is_trained (fst (run toy_lib [Save ''model'', Load ''model''] (init, toy_fs)))
   \<and> vectorizer (fst (run toy_lib [Save ''model'', Load ''model''] (init, toy_fs))) = PyNone
   \<and> classifier (fst (run toy_lib [Save ''model'', Load ''model''] (init, toy_fs))) = PyNone
   \<and> fst (predict toy_lib
            (fst (run toy_lib [Save ''model'', Load ''model''] (init, toy_fs))) ''hello'')
       = Inl (AttributeError ''NoneType object has no attribute transform'')
   \<and> is_trained (fst (run toy_lib [Train ''data.csv'' (1/5), Train ''empty.csv'' (1/5)]
                         (init, toy_fs)))
   \<and> vectorizer (fst (run toy_lib [Train ''data.csv'' (1/5), Train ''empty.csv'' (1/5)]
                         (init, toy_fs)))
       = TfidfVectorizer toy_params None"
proof -
  have a: "fst (run toy_lib [Save ''model'', Load ''model''] (init, toy_fs))
      = init\<lparr>vectorizer := PyNone, classifier := PyNone, max_features := 15000,
             ngram_range := (1, 3), alpha := 0.01, is_trained := True\<rparr>"
    by (simp add: load_after_save) (simp add: init_def)
  have b: "fst (run toy_lib [Train ''data.csv'' (1/5), Train ''empty.csv'' (1/5)] (init, toy_fs))
      = (toy_detector [0, 1] [1/4, 3/4])\<lparr>vectorizer := TfidfVectorizer toy_params None\<rparr>"
    by (simp add: toy_train toy_train_empty)
  show ?thesis
    unfolding a b
    by (simp add: predict_def vectorizer_transform_def toy_detector_def)
qed

text \<open>
  C10, amended. Start from a fresh detector and a file system in which no joblib file
  holds \<open>None\<close>, and apply any sequence of \<open>train\<close>, \<open>save_model\<close>,
  \<open>load_model\<close> and \<open>predict\<close> in which \<open>save_model\<close> is only called while
  \<open>is_trained\<close> is true. Then whenever \<open>is_trained\<close> is true, \<open>vectorizer\<close> and
  \<open>classifier\<close> are not \<open>None\<close>, so \<open>predict\<close> does not dereference
  \<open>None\<close> after its guard.
\<close>

theorem trained_implies_nonnull:
  assumes "no_null_artifact fs" and "saves_trained lib ops (init, fs)"
  shows "is_trained (fst (run lib ops (init, fs))) \<longrightarrow>
           vectorizer (fst (run lib ops (init, fs))) \<noteq> PyNone
           \<and> classifier (fst (run lib ops (init, fs))) \<noteq> PyNone"
proof -
  have "nonnull (fst (init :: ('a, 'b) detector, fs))"
    by (simp add: nonnull_def init_def)
  with assms have "nonnull (fst (run lib ops (init, fs)))"
    using run_inv [of "(init, fs)" lib ops] by simp
  then show ?thesis
    by (simp add: nonnull_def)
qed

theorem trained_implies_nonnull_witness:
  "no_null_artifact toy_fs
   \<and> saves_trained toy_lib
        [Train ''data.csv'' (1/5), Save ''model'', Load ''model'', Predict ''hello''] (init, toy_fs)
   \<and> is_trained (fst (run toy_lib
        [Train ''data.csv'' (1/5), Save ''model'', Load ''model'', Predict ''hello''] (init, toy_fs)))
   \<and> vectorizer (fst (run toy_lib
        [Train ''data.csv'' (1/5), Save ''model'', Load ''model'', Predict ''hello''] (init, toy_fs)))
       \<noteq> PyNone
   \<and> classifier (fst (run toy_lib
        [Train ''data.csv'' (1/5), Save ''model'', Load ''model'', Predict ''hello''] (init, toy_fs)))
       \<noteq> PyNone"
proof -
  have t: "is_trained (fst (run toy_lib
        [Train ''data.csv'' (1/5), Save ''model'', Load ''model'', Predict ''hello'']
        (init, toy_fs)))"
    unfolding toy_run by (simp add: toy_detector_def)
  from trained_implies_nonnull [OF toy_fs_no_null toy_saves]
  show ?thesis
    using toy_fs_no_null toy_saves t by blast
qed

end
